theory Spec2Isabelle
  imports Complex_Main "HOL-Library.Sublist"
begin

section \<open>Python strings\<close>

text \<open>
  Python strings are modelled as \<^typ>\<open>string\<close>. The three operations the proxy uses on
  them are \<^verbatim>\<open>s.startswith(p)\<close>, \<^verbatim>\<open>p in s\<close> and the slice \<^verbatim>\<open>s[n:]\<close> (which is
  \<^const>\<open>drop\<close>). The prefixes and markers of the source are ASCII, so a byte model and a
  code-point model agree on them.
\<close>

definition py_startswith :: "string \<Rightarrow> string \<Rightarrow> bool" where
  "py_startswith s p = (take (length p) s = p)"

fun py_in :: "string \<Rightarrow> string \<Rightarrow> bool" where
  "py_in p [] = (p = [])"
| "py_in p (c # cs) = (py_startswith (c # cs) p \<or> py_in p cs)"

text \<open>
  \<^verbatim>\<open>s.lower()\<close> on the ASCII letters. A character outside \<open>A..Z\<close> is left alone; no
  non-ASCII character lowers to one of \<open>t\<close>, \<open>r\<close>, \<open>u\<close>, \<open>e\<close>, so the comparison with
  \<^verbatim>\<open>"true"\<close> in the source is not affected.
\<close>

definition lower_char :: "char \<Rightarrow> char" where
  "lower_char c =
     (let n = (of_char c :: nat) in if 65 \<le> n \<and> n \<le> 90 then char_of (n + 32) else c)"

definition py_lower :: "string \<Rightarrow> string" where
  "py_lower s = map lower_char s"

text \<open>Truthiness of an \<^verbatim>\<open>Optional[str]\<close>: neither \<^verbatim>\<open>None\<close> nor the empty string.\<close>

definition truthy :: "string option \<Rightarrow> bool" where
  "truthy v = (case v of None \<Rightarrow> False | Some s \<Rightarrow> s \<noteq> [])"

section \<open>Configuration\<close>

record OpenAIConfig =
  api_key :: string
  base_url :: string
  organization :: "string option"

record AzureOpenAIConfig =
  api_key :: "string option"
  api_version :: string
  azure_endpoint :: string
  azure_deployment :: string
  use_azure_identity :: bool

record ProxyConfig =
  openai :: "OpenAIConfig option"
  azure_openai :: "AzureOpenAIConfig option"
  master_key :: string
  port :: int
  host :: string

text \<open>The process environment: \<^verbatim>\<open>os.getenv(k)\<close> and \<^verbatim>\<open>os.getenv(k, d)\<close>.\<close>

type_synonym environ = "string \<rightharpoonup> string"

definition getenv :: "environ \<Rightarrow> string \<Rightarrow> string option" where
  "getenv env k = env k"

definition getenv_default :: "environ \<Rightarrow> string \<Rightarrow> string \<Rightarrow> string" where
  "getenv_default env k d = (case env k of None \<Rightarrow> d | Some v \<Rightarrow> v)"

text \<open>
  \<^verbatim>\<open>load_config\<close> can raise: \<^verbatim>\<open>int(...)\<close> raises \<^verbatim>\<open>ValueError\<close> on a port that is not a
  number, and the model of the Azure section raises a validation error when the required string
  field \<^verbatim>\<open>azure_deployment\<close> receives \<^verbatim>\<open>None\<close>. Python's built-in \<^verbatim>\<open>int\<close> on strings
  is a parameter \<open>py_int\<close> (\<^const>\<open>None\<close> where it raises).
\<close>

datatype startup_error = ValueError | ValidationError

definition load_config :: "(string \<Rightarrow> int option) \<Rightarrow> environ \<Rightarrow> startup_error + ProxyConfig" where
  "load_config py_int env =
     (let use_azure_ad = (getenv env ''AZURE_AD_TOKEN'' \<noteq> None
                          \<or> py_lower (getenv_default env ''USE_AZURE_IDENTITY'' ''false'') = ''true'');
          openai_cfg =
            (if truthy (getenv env ''OPENAI_API_KEY'')
             then Some \<lparr>OpenAIConfig.api_key = the (getenv env ''OPENAI_API_KEY''),
                        base_url = getenv_default env ''OPENAI_BASE_URL'' ''https://api.openai.com/v1'',
                        organization = getenv env ''OPENAI_ORGANIZATION''\<rparr>
             else None)
      in if (truthy (getenv env ''AZURE_OPENAI_API_KEY'') \<or> use_azure_ad)
            \<and> truthy (getenv env ''AZURE_ENDPOINT'')
            \<and> getenv env ''AZURE_DEPLOYMENT'' = None
         then Inl ValidationError
         else
           (let azure_cfg =
                  (if (truthy (getenv env ''AZURE_OPENAI_API_KEY'') \<or> use_azure_ad)
                      \<and> truthy (getenv env ''AZURE_ENDPOINT'')
                   then Some \<lparr>api_key = getenv env ''AZURE_OPENAI_API_KEY'',
                              api_version = getenv_default env ''AZURE_API_VERSION'' ''2024-02-15-preview'',
                              azure_endpoint = the (getenv env ''AZURE_ENDPOINT''),
                              azure_deployment = the (getenv env ''AZURE_DEPLOYMENT''),
                              use_azure_identity = use_azure_ad\<rparr>
                   else None)
            in case py_int (getenv_default env ''PORT'' ''4000'') of
                 None \<Rightarrow> Inl ValueError
               | Some p \<Rightarrow>
                   Inr \<lparr>openai = openai_cfg,
                        azure_openai = azure_cfg,
                        master_key = getenv_default env ''MASTER_KEY'' ''sk-1234'',
                        port = p,
                        host = getenv_default env ''HOST'' ''0.0.0.0''\<rparr>))"

section \<open>Exceptions\<close>

text \<open>
  The exceptions the handlers distinguish. The string of an upstream exception is its text
  \<^verbatim>\<open>str(e)\<close>; an \<^verbatim>\<open>APIError\<close> carries its \<^verbatim>\<open>status_code\<close> attribute when it has
  one. \<^verbatim>\<open>RateLimitError\<close> and \<^verbatim>\<open>AuthenticationError\<close> are subclasses of \<^verbatim>\<open>APIError\<close>
  in the SDK; the constructor \<open>APIError\<close> stands for every other instance of that class.
  \<^verbatim>\<open>HTTPException\<close> is the framework's exception with its status code and detail, and
  \<open>OtherException\<close> is any other subclass of \<^verbatim>\<open>Exception\<close>.
\<close>

datatype exn =
    RateLimitError string
  | AuthenticationError string
  | APIError string "int option"
  | HTTPException int string
  | OtherException string

section \<open>Authentication\<close>

definition authenticate_request :: "ProxyConfig \<Rightarrow> string option \<Rightarrow> exn + bool" where
  "authenticate_request config auth_header =
     (case auth_header of
        None \<Rightarrow> Inl (HTTPException 401 ''Missing Authorization header'')
      | Some h \<Rightarrow>
          if h = [] \<or> \<not> py_startswith h ''Bearer ''
          then Inl (HTTPException 401 ''Missing Authorization header'')
          else (let token = drop 7 h
                in if token \<noteq> master_key config
                   then Inl (HTTPException 401 ''Invalid API key'')
                   else Inr True))"

section \<open>Provider selection\<close>

text \<open>
  The two module-level clients, each \<^verbatim>\<open>None\<close> until \<^verbatim>\<open>initialize_clients\<close> builds it,
  and the loaded configuration.
\<close>

datatype client = AsyncOpenAI | AsyncAzureOpenAI

record globals =
  openai_client :: "client option"
  azure_client :: "client option"
  config :: ProxyConfig

definition get_client :: "globals \<Rightarrow> string \<Rightarrow> exn + client" where
  "get_client g model_name =
     (if py_startswith model_name ''gpt-'' \<and> openai_client g \<noteq> None
      then Inr (the (openai_client g))
      else if (py_startswith model_name ''azure-'' \<or> py_in ''gpt'' model_name)
              \<and> azure_client g \<noteq> None
      then Inr (the (azure_client g))
      else if azure_client g \<noteq> None
      then Inr (the (azure_client g))
      else if openai_client g \<noteq> None
      then Inr (the (openai_client g))
      else Inl (HTTPException 400 ''No configured AI providers''))"

text \<open>
  The resolution order as the specification words it: an ordered list of rules, each a
  condition and an outcome, of which the first whose condition holds decides; when none
  holds the outcome is the no-provider one.
\<close>

datatype routing_outcome = DirectProvider | GatewayProvider | NoProvider

definition routing_rules :: "bool \<Rightarrow> bool \<Rightarrow> string \<Rightarrow> (bool \<times> routing_outcome) list" where
  "routing_rules direct_registered gateway_registered model_name =
     [ (direct_registered \<and> prefix ''gpt-'' model_name, DirectProvider),
       (gateway_registered \<and> (prefix ''azure-'' model_name
                               \<or> sublist ''gpt'' model_name),
        GatewayProvider),
       (gateway_registered, GatewayProvider),
       (direct_registered, DirectProvider) ]"

fun first_match :: "(bool \<times> routing_outcome) list \<Rightarrow> routing_outcome" where
  "first_match [] = NoProvider"
| "first_match ((cond, out) # rules) = (if cond then out else first_match rules)"

definition select_provider_spec :: "bool \<Rightarrow> bool \<Rightarrow> string \<Rightarrow> routing_outcome" where
  "select_provider_spec direct_registered gateway_registered model_name =
     first_match (routing_rules direct_registered gateway_registered model_name)"

definition outcome_of :: "globals \<Rightarrow> exn + client \<Rightarrow> routing_outcome \<Rightarrow> bool" where
  "outcome_of g r out =
     (case out of
        DirectProvider \<Rightarrow> r = Inr (the (openai_client g))
      | GatewayProvider \<Rightarrow> r = Inr (the (azure_client g))
      | NoProvider \<Rightarrow> r = Inl (HTTPException 400 ''No configured AI providers''))"

section \<open>Requests\<close>

text \<open>
  The request models, after the framework has parsed and validated the body. A float is a
  value of the type parameter \<open>'f\<close>: the proxy passes it on and never computes with it.
\<close>

record ChatMessage =
  role :: string
  content :: string
  name :: "string option"

record 'f CompletionRequest =
  model :: string
  prompt :: string
  temperature :: "'f option"
  max_tokens :: "int option"

record 'f ChatCompletionRequest =
  model :: string
  messages :: "ChatMessage list"
  temperature :: "'f option"
  max_tokens :: "int option"
  stream :: "bool option"

section \<open>The provider SDK\<close>

text \<open>
  The keyword arguments of the two calls the handlers make on the selected client. A message
  is passed as a dictionary, here the list of its key/value pairs.
\<close>

record 'f chat_create_kwargs =
  kw_model :: string
  kw_messages :: "(string \<times> string) list list"
  kw_temperature :: "'f option"
  kw_max_tokens :: "int option"
  kw_stream :: "bool option"

record 'f completions_create_kwargs =
  kwc_model :: string
  kwc_prompt :: string
  kwc_temperature :: "'f option"
  kwc_max_tokens :: "int option"

datatype 'f upstream_call =
    ChatCreate client "'f chat_create_kwargs"
  | CompletionsCreate client "'f completions_create_kwargs"

text \<open>
  What \<^verbatim>\<open>client.chat.completions.create\<close> returns: a completion object, or an
  asynchronous stream. The stream is the finite sequence of what each step of its iteration
  does: it yields a chunk, or it raises; the end of the list is the end of the iteration.
\<close>

datatype 'chunk stream_event = Yields 'chunk | Raises exn

datatype ('obj, 'chunk) upstream_response =
    ChatCompletion 'obj
  | AsyncStream "'chunk stream_event list"

text \<open>The provider capability: each call returns or raises.\<close>

record ('f, 'obj, 'chunk) upstream =
  chat_completions_create ::
    "client \<Rightarrow> 'f chat_create_kwargs \<Rightarrow> exn + ('obj, 'chunk) upstream_response"
  completions_create ::
    "client \<Rightarrow> 'f completions_create_kwargs \<Rightarrow> exn + 'obj"

text \<open>
  The library functions the handlers call on values they do not look into:
  \<^verbatim>\<open>response.model_dump()\<close>, \<^verbatim>\<open>chunk.model_dump_json()\<close>, \<^verbatim>\<open>json.dumps\<close> of a
  dictionary of strings, \<^verbatim>\<open>str\<close> of the framework's \<^verbatim>\<open>HTTPException\<close>, and the texts of
  the two errors the interpreter raises when a response is not of the kind the stream flag
  asked for.
\<close>

record ('obj, 'chunk, 'json) sdk =
  model_dump :: "'obj \<Rightarrow> 'json"
  model_dump_json :: "'chunk \<Rightarrow> string"
  json_dumps :: "(string \<times> string) list \<Rightarrow> string"
  str_http_exception :: "int \<Rightarrow> string \<Rightarrow> string"
  not_async_iterable :: string
  no_model_dump :: string

definition str_exn :: "('obj, 'chunk, 'json) sdk \<Rightarrow> exn \<Rightarrow> string" where
  "str_exn lib e =
     (case e of
        RateLimitError m \<Rightarrow> m
      | AuthenticationError m \<Rightarrow> m
      | APIError m sc \<Rightarrow> m
      | HTTPException s d \<Rightarrow> str_http_exception lib s d
      | OtherException m \<Rightarrow> m)"

section \<open>Responses\<close>

text \<open>
  What a handler returns. A handler that raises gives \<open>Inl\<close> of the exception; the framework
  answers an \<^verbatim>\<open>HTTPException\<close> with its status code and a body \<^verbatim>\<open>{"detail": ...}\<close>, any
  other exception with status 500, and a returned value with status 200.
\<close>

datatype 'json result =
    HealthStatus string string
  | ModelList "(string \<times> string) list"
  | JSONBody 'json
  | StreamingResponse "string list" string
  | RootInfo bool bool bool

definition http_status :: "exn + 'json result \<Rightarrow> int" where
  "http_status r =
     (case r of
        Inl (HTTPException s d) \<Rightarrow> s
      | Inl _ \<Rightarrow> 500
      | Inr _ \<Rightarrow> 200)"

section \<open>The handlers\<close>

text \<open>The chain of \<^verbatim>\<open>except\<close> clauses shared by the two completion endpoints.\<close>

definition except_clauses :: "('obj, 'chunk, 'json) sdk \<Rightarrow> exn \<Rightarrow> exn" where
  "except_clauses lib e =
     (case e of
        RateLimitError m \<Rightarrow> HTTPException 429 ''Upstream rate limit exceeded''
      | AuthenticationError m \<Rightarrow> HTTPException 401 ''Upstream authentication failed''
      | APIError m sc \<Rightarrow>
          (let attr = (case sc of None \<Rightarrow> 502 | Some c \<Rightarrow> c);
               status_code = (if attr = 0 then 502 else attr)
           in HTTPException status_code (str_exn lib e))
      | _ \<Rightarrow> HTTPException 500 (str_exn lib e))"

definition frame :: "string \<Rightarrow> string" where
  "frame payload = ''data: '' @ payload @ [CHR 0x0A, CHR 0x0A]"

text \<open>
  The generator of the streaming path. It yields one frame for each chunk, then the terminal
  frame; an exception raised by the iteration is caught, one frame with its text is yielded
  and the generator returns.
\<close>

fun relay :: "('obj, 'chunk, 'json) sdk \<Rightarrow> 'chunk stream_event list \<Rightarrow> string list" where
  "relay lib [] = [frame ''[DONE]'']"
| "relay lib (Yields chunk # rest) = frame (model_dump_json lib chunk) # relay lib rest"
| "relay lib (Raises e # rest) = [frame (json_dumps lib [(''error'', str_exn lib e)])]"

definition generate ::
  "('obj, 'chunk, 'json) sdk \<Rightarrow> ('obj, 'chunk) upstream_response \<Rightarrow> string list" where
  "generate lib response =
     (case response of
        AsyncStream events \<Rightarrow> relay lib events
      | ChatCompletion obj \<Rightarrow>
          [frame (json_dumps lib [(''error'', str_exn lib (OtherException (not_async_iterable lib)))])])"

definition chat_kwargs :: "'f ChatCompletionRequest \<Rightarrow> 'f chat_create_kwargs" where
  "chat_kwargs request =
     \<lparr>kw_model = ChatCompletionRequest.model request,
      kw_messages = map (\<lambda>msg. [(''role'', role msg), (''content'', content msg)]) (messages request),
      kw_temperature = ChatCompletionRequest.temperature request,
      kw_max_tokens = ChatCompletionRequest.max_tokens request,
      kw_stream = stream request\<rparr>"

definition chat_completion ::
  "('obj, 'chunk, 'json) sdk \<Rightarrow> ('f, 'obj, 'chunk) upstream \<Rightarrow> globals \<Rightarrow> 'f ChatCompletionRequest
     \<Rightarrow> 'f upstream_call list \<times> (exn + 'json result)" where
  "chat_completion lib up g request =
     (case get_client g (ChatCompletionRequest.model request) of
        Inl e \<Rightarrow> ([], Inl (except_clauses lib e))
      | Inr client \<Rightarrow>
          (let kwargs = chat_kwargs request;
               calls = [ChatCreate client kwargs]
           in case chat_completions_create up client kwargs of
                Inl e \<Rightarrow> (calls, Inl (except_clauses lib e))
              | Inr response \<Rightarrow>
                  if stream request = Some True
                  then (calls, Inr (StreamingResponse (generate lib response) ''text/event-stream''))
                  else (case response of
                          ChatCompletion obj \<Rightarrow> (calls, Inr (JSONBody (model_dump lib obj)))
                        | AsyncStream events \<Rightarrow>
                            (calls, Inl (except_clauses lib (OtherException (no_model_dump lib)))))))"

definition completion_kwargs :: "'f CompletionRequest \<Rightarrow> 'f completions_create_kwargs" where
  "completion_kwargs request =
     \<lparr>kwc_model = CompletionRequest.model request,
      kwc_prompt = prompt request,
      kwc_temperature = CompletionRequest.temperature request,
      kwc_max_tokens = CompletionRequest.max_tokens request\<rparr>"

definition completion ::
  "('obj, 'chunk, 'json) sdk \<Rightarrow> ('f, 'obj, 'chunk) upstream \<Rightarrow> globals \<Rightarrow> 'f CompletionRequest
     \<Rightarrow> 'f upstream_call list \<times> (exn + 'json result)" where
  "completion lib up g request =
     (case get_client g (CompletionRequest.model request) of
        Inl e \<Rightarrow> ([], Inl (except_clauses lib e))
      | Inr client \<Rightarrow>
          (let kwargs = completion_kwargs request;
               calls = [CompletionsCreate client kwargs]
           in case completions_create up client kwargs of
                Inl e \<Rightarrow> (calls, Inl (except_clauses lib e))
              | Inr response \<Rightarrow> (calls, Inr (JSONBody (model_dump lib response)))))"

definition health_check :: "'json result" where
  "health_check = HealthStatus ''ok'' ''Proxy is ready''"

definition list_models :: "globals \<Rightarrow> 'json result" where
  "list_models g =
     ModelList
       ((if openai_client g \<noteq> None
         then [(''gpt-4o'', ''openai''), (''gpt-4o-mini'', ''openai''), (''gpt-4-turbo'', ''openai'')]
         else [])
        @ (if azure_client g \<noteq> None
           then [(''azure-gpt-4'', ''azure''), (''azure-gpt-4-turbo'', ''azure''),
                 (''azure-gpt-35-turbo'', ''azure'')]
           else []))"

definition root :: "globals \<Rightarrow> 'json result" where
  "root g =
     RootInfo (openai (config g) \<noteq> None) (azure_openai (config g) \<noteq> None)
       (case azure_openai (config g) of None \<Rightarrow> False | Some a \<Rightarrow> use_azure_identity a)"

section \<open>The routes\<close>

text \<open>
  The five routes of the application. \<^verbatim>\<open>/models\<close>, \<^verbatim>\<open>/chat/completions\<close> and
  \<^verbatim>\<open>/completions\<close> declare the dependency \<^verbatim>\<open>Depends(authenticate_request)\<close>, which runs
  before the handler; the readiness and root routes declare none. The result is the list of
  calls made on a provider and what the handler returned or raised.
\<close>

datatype 'f request =
    GetHealthReadiness
  | GetModels
  | PostChatCompletions "'f ChatCompletionRequest"
  | PostCompletions "'f CompletionRequest"
  | GetRoot

definition serve ::
  "('obj, 'chunk, 'json) sdk \<Rightarrow> ('f, 'obj, 'chunk) upstream \<Rightarrow> globals \<Rightarrow> string option
     \<Rightarrow> 'f request \<Rightarrow> 'f upstream_call list \<times> (exn + 'json result)" where
  "serve lib up g auth_header req =
     (case req of
        GetHealthReadiness \<Rightarrow> ([], Inr health_check)
      | GetModels \<Rightarrow>
          (case authenticate_request (config g) auth_header of
             Inl e \<Rightarrow> ([], Inl e)
           | Inr auth \<Rightarrow> ([], Inr (list_models g)))
      | PostChatCompletions r \<Rightarrow>
          (case authenticate_request (config g) auth_header of
             Inl e \<Rightarrow> ([], Inl e)
           | Inr auth \<Rightarrow> chat_completion lib up g r)
      | PostCompletions r \<Rightarrow>
          (case authenticate_request (config g) auth_header of
             Inl e \<Rightarrow> ([], Inl e)
           | Inr auth \<Rightarrow> completion lib up g r)
      | GetRoot \<Rightarrow> ([], Inr (root g)))"

section \<open>Example deployment\<close>

text \<open>
  A concrete deployment on which the theorems below are evaluated: the direct provider alone
  is configured, the master key is the default one, the library functions are simple
  stand-ins (a chunk and a completion object are their own serialisation), and the provider
  refuses an empty message list with status 400, streams two chunks when asked to stream and
  returns one completion otherwise.
\<close>

definition example_config :: ProxyConfig where
  "example_config =
     \<lparr>openai = Some \<lparr>OpenAIConfig.api_key = ''sk-upstream'', base_url = ''https://api.openai.com/v1'',
                     organization = None\<rparr>,
      azure_openai = None,
      master_key = ''sk-1234'',
      port = 4000,
      host = ''0.0.0.0''\<rparr>"

definition example_globals :: globals where
  "example_globals =
     \<lparr>openai_client = Some AsyncOpenAI, azure_client = None, config = example_config\<rparr>"

definition example_sdk :: "(string, string, string) sdk" where
  "example_sdk =
     \<lparr>model_dump = (\<lambda>obj. obj),
      model_dump_json = (\<lambda>chunk. chunk),
      json_dumps = (\<lambda>kvs. ''{'' @ concat (map (\<lambda>(k, v). k @ '': '' @ v) kvs) @ ''}''),
      str_http_exception = (\<lambda>s d. d),
      not_async_iterable = ''object is not an async iterable'',
      no_model_dump = ''object has no attribute model_dump''\<rparr>"

definition example_upstream :: "(real, string, string) upstream" where
  "example_upstream =
     \<lparr>chat_completions_create =
        (\<lambda>client kwargs.
           if kw_messages kwargs = [] then Inl (APIError ''messages is too short'' (Some 400))
           else if kw_stream kwargs = Some True then Inr (AsyncStream [Yields ''Hel'', Yields ''lo''])
           else Inr (ChatCompletion ''Hello'')),
      completions_create = (\<lambda>client kwargs. Inr ''Hello'')\<rparr>"

definition example_request :: "real ChatCompletionRequest" where
  "example_request =
     \<lparr>model = ''gpt-4o'',
      messages = [\<lparr>role = ''user'', content = ''hi'', name = Some ''alice''\<rparr>],
      temperature = Some 0.7,
      max_tokens = None,
      stream = Some True\<rparr>"

definition example_completion_request :: "real CompletionRequest" where
  "example_completion_request =
     \<lparr>CompletionRequest.model = ''gpt-4o'',
      prompt = ''hi'',
      CompletionRequest.temperature = Some 0.7,
      CompletionRequest.max_tokens = None\<rparr>"

section \<open>Properties of the string operations\<close>

lemma py_startswith_prefix: "py_startswith s p \<longleftrightarrow> prefix p s"
  unfolding py_startswith_def
  by (metis append_take_drop_id prefix_def append_eq_conv_conj)

lemma py_in_sublist: "py_in p s \<longleftrightarrow> sublist p s"
  by (induction s) (auto simp: py_startswith_prefix sublist_Cons_right)

section \<open>The order of provider selection\<close>

lemma first_match_rules:
  "select_provider_spec d gw m =
     (if d \<and> prefix ''gpt-'' m then DirectProvider
      else if gw \<and> (prefix ''azure-'' m \<or> sublist ''gpt'' m) then GatewayProvider
      else if gw then GatewayProvider
      else if d then DirectProvider
      else NoProvider)"
  by (simp add: select_provider_spec_def routing_rules_def)

text \<open>
  C2. Provider selection follows the first-match-wins order of the specification: the
  outcome of \<^const>\<open>get_client\<close> is the outcome of the ordered rules (direct prefix and direct
  registered; gateway prefix or family marker, and gateway registered; gateway registered;
  direct registered; otherwise no provider). A model name with the prefix of a registered
  provider selects that provider whatever else is registered, with no provider registered the
  outcome is the no-provider one, and the result depends on nothing but the model name and
  the two clients.
\<close>

theorem get_client_resolution_order:
  "outcome_of g (get_client g m)
     (select_provider_spec (openai_client g \<noteq> None) (azure_client g \<noteq> None) m)
   \<and> (prefix ''gpt-'' m \<and> openai_client g = Some c \<longrightarrow> get_client g m = Inr c)
   \<and> (prefix ''azure-'' m \<and> azure_client g = Some c \<longrightarrow> get_client g m = Inr c)
   \<and> (openai_client g = None \<and> azure_client g = None
        \<longrightarrow> get_client g m = Inl (HTTPException 400 ''No configured AI providers''))
   \<and> get_client (g\<lparr>config := cfg\<rparr>) m = get_client g m"
proof -
  have order: "outcome_of g (get_client g m)
     (select_provider_spec (openai_client g \<noteq> None) (azure_client g \<noteq> None) m)"
    by (cases "openai_client g"; cases "azure_client g")
       (simp_all add: first_match_rules outcome_of_def get_client_def py_startswith_prefix py_in_sublist)
  have direct: "prefix ''gpt-'' m \<and> openai_client g = Some c \<longrightarrow> get_client g m = Inr c"
    by (simp add: get_client_def py_startswith_prefix)
  have "\<not> (prefix ''gpt-'' m \<and> prefix ''azure-'' m)"
    by (auto simp: prefix_def)
  then have gateway: "prefix ''azure-'' m \<and> azure_client g = Some c \<longrightarrow> get_client g m = Inr c"
    by (auto simp: get_client_def py_startswith_prefix)
  have none: "openai_client g = None \<and> azure_client g = None
        \<longrightarrow> get_client g m = Inl (HTTPException 400 ''No configured AI providers'')"
    by (simp add: get_client_def)
  have det: "get_client (g\<lparr>config := cfg\<rparr>) m = get_client g m"
    by (auto simp: get_client_def)
  from order direct gateway none det show ?thesis by blast
qed


theorem get_client_resolution_order_witness:
  "prefix ''gpt-'' ''gpt-4o''
   \<and> get_client (example_globals\<lparr>azure_client := Some AsyncAzureOpenAI\<rparr>) ''gpt-4o'' = Inr AsyncOpenAI
   \<and> prefix ''azure-'' ''azure-gpt-4''
   \<and> get_client (example_globals\<lparr>azure_client := Some AsyncAzureOpenAI\<rparr>) ''azure-gpt-4''
       = Inr AsyncAzureOpenAI
   \<and> get_client (example_globals\<lparr>openai_client := None\<rparr>) ''gpt-4o''
       = Inl (HTTPException 400 ''No configured AI providers'')"
  using get_client_resolution_order
          [of "example_globals\<lparr>azure_client := Some AsyncAzureOpenAI\<rparr>" "''gpt-4o''" AsyncOpenAI]
        get_client_resolution_order
          [of "example_globals\<lparr>azure_client := Some AsyncAzureOpenAI\<rparr>" "''azure-gpt-4''"
              AsyncAzureOpenAI]
        get_client_resolution_order [of "example_globals\<lparr>openai_client := None\<rparr>" "''gpt-4o''"]
  by (simp add: example_globals_def)

section \<open>The streaming relay\<close>

lemma relay_chunks:
  "relay lib (map Yields chunks) = map (\<lambda>c. frame (model_dump_json lib c)) chunks @ [frame ''[DONE]'']"
  by (induction chunks) simp_all

lemma relay_raise:
  "relay lib (map Yields chunks @ Raises e # rest)
   = map (\<lambda>c. frame (model_dump_json lib c)) chunks @ [frame (json_dumps lib [(''error'', str_exn lib e)])]"
  by (induction chunks) simp_all

text \<open>
  C1. A successful streaming chat completion (the stream flag is set, a client is selected,
  the provider call returns a stream and every step of the stream yields a chunk) emits one
  frame \<^verbatim>\<open>data: <json of chunk>\<close> followed by two newlines for each chunk, in the order of the
  chunks, then the one frame \<^verbatim>\<open>data: [DONE]\<close> followed by two newlines, and nothing else.
\<close>

theorem streaming_success_frames:
  assumes "stream request = Some True"
    and "get_client g (ChatCompletionRequest.model request) = Inr client"
    and "chat_completions_create up client (chat_kwargs request) = Inr (AsyncStream (map Yields chunks))"
  shows "chat_completion lib up g request =
           ([ChatCreate client (chat_kwargs request)],
            Inr (StreamingResponse
                   (map (\<lambda>c. ''data: '' @ model_dump_json lib c @ [CHR 0x0A, CHR 0x0A]) chunks
                    @ [''data: [DONE]'' @ [CHR 0x0A, CHR 0x0A]])
                   ''text/event-stream''))"
  using assms by (simp add: chat_completion_def generate_def relay_chunks frame_def)

theorem streaming_success_frames_witness:
  "stream example_request = Some True
   \<and> get_client example_globals (ChatCompletionRequest.model example_request) = Inr AsyncOpenAI
   \<and> chat_completions_create example_upstream AsyncOpenAI (chat_kwargs example_request)
       = Inr (AsyncStream (map Yields [''Hel'', ''lo'']))
   \<and> snd (chat_completion example_sdk example_upstream example_globals example_request)
       = Inr (StreamingResponse
                [''data: Hel'' @ [CHR 0x0A, CHR 0x0A], ''data: lo'' @ [CHR 0x0A, CHR 0x0A],
                 ''data: [DONE]'' @ [CHR 0x0A, CHR 0x0A]]
                ''text/event-stream'')"
proof -
  have a: "stream example_request = Some True"
    by (simp add: example_request_def)
  have b: "get_client example_globals (ChatCompletionRequest.model example_request) = Inr AsyncOpenAI"
    by (simp add: example_request_def example_globals_def get_client_def py_startswith_def)
  have c: "chat_completions_create example_upstream AsyncOpenAI (chat_kwargs example_request)
       = Inr (AsyncStream (map Yields [''Hel'', ''lo'']))"
    by (simp add: example_request_def example_upstream_def chat_kwargs_def)
  from streaming_success_frames [OF a b c, of example_sdk] a b c
  show ?thesis by (simp add: example_sdk_def)
qed

section \<open>Normalisation of upstream failures\<close>

lemma except_clauses_status:
  "except_clauses lib e =
     HTTPException
       (case e of
          RateLimitError m \<Rightarrow> 429
        | AuthenticationError m \<Rightarrow> 401
        | APIError m None \<Rightarrow> 502
        | APIError m (Some c) \<Rightarrow> (if c = 0 then 502 else c)
        | HTTPException s d \<Rightarrow> 500
        | OtherException m \<Rightarrow> 500)
       (case e of
          RateLimitError m \<Rightarrow> ''Upstream rate limit exceeded''
        | AuthenticationError m \<Rightarrow> ''Upstream authentication failed''
        | _ \<Rightarrow> str_exn lib e)"
  by (simp add: except_clauses_def Let_def split: exn.splits option.splits)

lemma chat_completion_raises:
  assumes "get_client g (ChatCompletionRequest.model r) = Inr client"
    and "chat_completions_create up client (chat_kwargs r) = Inl e"
  shows "chat_completion lib up g r = ([ChatCreate client (chat_kwargs r)], Inl (except_clauses lib e))"
  using assms by (simp add: chat_completion_def)

lemma completion_raises:
  assumes "get_client g (CompletionRequest.model r) = Inr client"
    and "completions_create up client (completion_kwargs r) = Inl e"
  shows "completion lib up g r = ([CompletionsCreate client (completion_kwargs r)], Inl (except_clauses lib e))"
  using assms by (simp add: completion_def)

text \<open>
  C3. When the call on the selected provider raises, on the chat and on the text completion
  endpoint, the status of the error response is decided by the first matching rule: 429 for a
  rate-limit failure, 401 for an authentication failure, for any other API error its own
  status code, or 502 when it has none (a code of 0 is false in Python and counts as none),
  and 500 for any other exception.
\<close>

theorem upstream_failure_status:
  "(get_client g (ChatCompletionRequest.model r) = Inr client
      \<and> chat_completions_create up client (chat_kwargs r) = Inl e
    \<longrightarrow> http_status (snd (chat_completion lib up g r)) =
          (case e of
             RateLimitError m \<Rightarrow> 429
           | AuthenticationError m \<Rightarrow> 401
           | APIError m None \<Rightarrow> 502
           | APIError m (Some c) \<Rightarrow> (if c = 0 then 502 else c)
           | HTTPException s d \<Rightarrow> 500
           | OtherException m \<Rightarrow> 500))
   \<and> (get_client g (CompletionRequest.model r') = Inr client'
        \<and> completions_create up client' (completion_kwargs r') = Inl e'
      \<longrightarrow> http_status (snd (completion lib up g r')) =
            (case e' of
               RateLimitError m \<Rightarrow> 429
             | AuthenticationError m \<Rightarrow> 401
             | APIError m None \<Rightarrow> 502
             | APIError m (Some c) \<Rightarrow> (if c = 0 then 502 else c)
             | HTTPException s d \<Rightarrow> 500
             | OtherException m \<Rightarrow> 500))"
proof (intro conjI impI)
  assume "get_client g (ChatCompletionRequest.model r) = Inr client
      \<and> chat_completions_create up client (chat_kwargs r) = Inl e"
  then have "snd (chat_completion lib up g r) = Inl (except_clauses lib e)"
    by (simp add: chat_completion_raises)
  then show "http_status (snd (chat_completion lib up g r)) =
          (case e of
             RateLimitError m \<Rightarrow> 429
           | AuthenticationError m \<Rightarrow> 401
           | APIError m None \<Rightarrow> 502
           | APIError m (Some c) \<Rightarrow> (if c = 0 then 502 else c)
           | HTTPException s d \<Rightarrow> 500
           | OtherException m \<Rightarrow> 500)"
    by (simp add: except_clauses_status http_status_def)
next
  assume "get_client g (CompletionRequest.model r') = Inr client'
        \<and> completions_create up client' (completion_kwargs r') = Inl e'"
  then have "snd (completion lib up g r') = Inl (except_clauses lib e')"
    by (simp add: completion_raises)
  then show "http_status (snd (completion lib up g r')) =
            (case e' of
               RateLimitError m \<Rightarrow> 429
             | AuthenticationError m \<Rightarrow> 401
             | APIError m None \<Rightarrow> 502
             | APIError m (Some c) \<Rightarrow> (if c = 0 then 502 else c)
             | HTTPException s d \<Rightarrow> 500
             | OtherException m \<Rightarrow> 500)"
    by (simp add: except_clauses_status http_status_def)
qed

lemma example_get_client:
  "get_client example_globals ''gpt-4o'' = Inr AsyncOpenAI"
  by (simp add: example_globals_def get_client_def py_startswith_def)

theorem upstream_failure_status_witness:
  "http_status (snd (chat_completion example_sdk
       (example_upstream\<lparr>chat_completions_create := (\<lambda>client kwargs. Inl (RateLimitError ''slow down''))\<rparr>)
       example_globals example_request)) = 429
   \<and> http_status (snd (chat_completion example_sdk
       (example_upstream\<lparr>chat_completions_create := (\<lambda>client kwargs. Inl (AuthenticationError ''bad key''))\<rparr>)
       example_globals example_request)) = 401
   \<and> http_status (snd (chat_completion example_sdk
       (example_upstream\<lparr>chat_completions_create := (\<lambda>client kwargs. Inl (APIError ''not found'' (Some 404)))\<rparr>)
       example_globals example_request)) = 404
   \<and> http_status (snd (completion example_sdk
       (example_upstream\<lparr>completions_create := (\<lambda>client kwargs. Inl (APIError ''connection error'' None))\<rparr>)
       example_globals
       example_completion_request)) = 502
   \<and> http_status (snd (completion example_sdk
       (example_upstream\<lparr>completions_create := (\<lambda>client kwargs. Inl (OtherException ''boom''))\<rparr>)
       example_globals
       example_completion_request)) = 500"
  using upstream_failure_status
          [of example_globals example_request AsyncOpenAI
              "example_upstream\<lparr>chat_completions_create := (\<lambda>client kwargs. Inl (RateLimitError ''slow down''))\<rparr>"
              "RateLimitError ''slow down''" example_sdk]
        upstream_failure_status
          [of example_globals example_request AsyncOpenAI
              "example_upstream\<lparr>chat_completions_create := (\<lambda>client kwargs. Inl (AuthenticationError ''bad key''))\<rparr>"
              "AuthenticationError ''bad key''" example_sdk]
        upstream_failure_status
          [of example_globals example_request AsyncOpenAI
              "example_upstream\<lparr>chat_completions_create := (\<lambda>client kwargs. Inl (APIError ''not found'' (Some 404)))\<rparr>"
              "APIError ''not found'' (Some 404)" example_sdk]
        upstream_failure_status
          [of example_globals example_request AsyncOpenAI
              "example_upstream\<lparr>completions_create := (\<lambda>client kwargs. Inl (APIError ''connection error'' None))\<rparr>"
              "RateLimitError []" example_sdk
              "example_completion_request"
              AsyncOpenAI "APIError ''connection error'' None"]
        upstream_failure_status
          [of example_globals example_request AsyncOpenAI
              "example_upstream\<lparr>completions_create := (\<lambda>client kwargs. Inl (OtherException ''boom''))\<rparr>"
              "RateLimitError []" example_sdk
              "example_completion_request"
              AsyncOpenAI "OtherException ''boom''"]
  by (simp add: example_get_client example_request_def example_completion_request_def)

section \<open>Failure in the middle of a stream\<close>

text \<open>
  C7. On the streaming path, when the iteration of the provider's stream raises after some
  chunks (the streaming response has been returned, so the status 200 is settled), the relay
  emits the frames of the chunks that came before, then exactly one frame
  \<^verbatim>\<open>data: <json of {error: str(e)}>\<close> describing the failure, and ends: no terminal frame
  and nothing of the rest of the stream follows, and the status stays 200.
\<close>

theorem midstream_failure_in_band:
  assumes "stream request = Some True"
    and "get_client g (ChatCompletionRequest.model request) = Inr client"
    and "chat_completions_create up client (chat_kwargs request)
         = Inr (AsyncStream (map Yields chunks @ Raises e # rest))"
  shows "chat_completion lib up g request =
           ([ChatCreate client (chat_kwargs request)],
            Inr (StreamingResponse
                   (map (\<lambda>c. ''data: '' @ model_dump_json lib c @ [CHR 0x0A, CHR 0x0A]) chunks
                    @ [''data: '' @ json_dumps lib [(''error'', str_exn lib e)] @ [CHR 0x0A, CHR 0x0A]])
                   ''text/event-stream''))
         \<and> http_status (snd (chat_completion lib up g request)) = 200"
  using assms by (simp add: chat_completion_def generate_def relay_raise frame_def http_status_def)

theorem midstream_failure_in_band_witness:
  "snd (chat_completion example_sdk
          (example_upstream\<lparr>chat_completions_create :=
             (\<lambda>client kwargs. Inr (AsyncStream [Yields ''Hel'', Raises (OtherException ''connection reset''),
                                                 Yields ''lo'']))\<rparr>)
          example_globals example_request)
     = Inr (StreamingResponse
              [''data: Hel'' @ [CHR 0x0A, CHR 0x0A],
               ''data: {error: connection reset}'' @ [CHR 0x0A, CHR 0x0A]]
              ''text/event-stream'')
   \<and> http_status (snd (chat_completion example_sdk
          (example_upstream\<lparr>chat_completions_create :=
             (\<lambda>client kwargs. Inr (AsyncStream [Yields ''Hel'', Raises (OtherException ''connection reset''),
                                                 Yields ''lo'']))\<rparr>)
          example_globals example_request)) = 200"
proof -
  let ?up = "example_upstream\<lparr>chat_completions_create :=
             (\<lambda>client kwargs. Inr (AsyncStream [Yields ''Hel'', Raises (OtherException ''connection reset''),
                                                 Yields ''lo'']))\<rparr>"
  have a: "stream example_request = Some True"
    by (simp add: example_request_def)
  have b: "get_client example_globals (ChatCompletionRequest.model example_request) = Inr AsyncOpenAI"
    by (simp add: example_get_client example_request_def)
  have c: "chat_completions_create ?up AsyncOpenAI (chat_kwargs example_request)
           = Inr (AsyncStream (map Yields [''Hel''] @ Raises (OtherException ''connection reset'')
                               # [Yields ''lo'']))"
    by simp
  from midstream_failure_in_band [OF a b c, of example_sdk]
  show ?thesis by (simp add: example_sdk_def str_exn_def http_status_def)
qed

section \<open>The empty message list\<close>

text \<open>
  C4 as stated fails. In the example deployment a request with an empty message list is
  passed to the provider: the one call that is made carries \<open>kw_messages = []\<close>. With a
  provider that answers every call with a rate-limit failure the status of the response to
  the same request is 429, not 400.
\<close>

theorem empty_messages_forwarded_counterexample:
  "messages (example_request\<lparr>messages := []\<rparr>) = []
   \<and> fst (chat_completion example_sdk example_upstream example_globals
            (example_request\<lparr>messages := []\<rparr>))
       = [ChatCreate AsyncOpenAI
            \<lparr>kw_model = ''gpt-4o'', kw_messages = [], kw_temperature = Some 0.7,
             kw_max_tokens = None, kw_stream = Some True\<rparr>]
   \<and> http_status (snd (chat_completion example_sdk
            (example_upstream\<lparr>chat_completions_create :=
               (\<lambda>client kwargs. Inl (RateLimitError ''slow down''))\<rparr>)
            example_globals (example_request\<lparr>messages := []\<rparr>))) = 429"
  by (simp add: chat_completion_def example_get_client example_request_def chat_kwargs_def
        example_upstream_def except_clauses_def http_status_def)

text \<open>
  C4, as the code has it. The proxy has no check of its own on the message list. For a chat
  completion request whose message list is empty and for which a provider is selected, it
  makes exactly one call on the provider, and that call carries the empty message list; when
  the call raises an API error with status code 400, the response has status 400 and the
  text of that error as its detail.
\<close>

theorem empty_messages_forwarded:
  assumes "messages request = []"
    and "get_client g (ChatCompletionRequest.model request) = Inr client"
  shows "fst (chat_completion lib up g request) = [ChatCreate client (chat_kwargs request)]
         \<and> kw_messages (chat_kwargs request) = []
         \<and> (chat_completions_create up client (chat_kwargs request) = Inl (APIError m (Some 400))
              \<longrightarrow> snd (chat_completion lib up g request) = Inl (HTTPException 400 m))"
proof -
  have "fst (chat_completion lib up g request) = [ChatCreate client (chat_kwargs request)]"
    using assms(2)
    by (simp add: chat_completion_def Let_def split: sum.splits upstream_response.splits)
  moreover have "kw_messages (chat_kwargs request) = []"
    using assms(1) by (simp add: chat_kwargs_def)
  moreover have "chat_completions_create up client (chat_kwargs request) = Inl (APIError m (Some 400))
              \<longrightarrow> snd (chat_completion lib up g request) = Inl (HTTPException 400 m)"
    using assms(2) by (simp add: chat_completion_raises except_clauses_def str_exn_def)
  ultimately show ?thesis by blast
qed

theorem empty_messages_forwarded_witness:
  "messages (example_request\<lparr>messages := []\<rparr>) = []
   \<and> get_client example_globals (ChatCompletionRequest.model (example_request\<lparr>messages := []\<rparr>))
       = Inr AsyncOpenAI
   \<and> chat_completions_create example_upstream AsyncOpenAI (chat_kwargs (example_request\<lparr>messages := []\<rparr>))
       = Inl (APIError ''messages is too short'' (Some 400))
   \<and> chat_completion example_sdk example_upstream example_globals (example_request\<lparr>messages := []\<rparr>)
       = ([ChatCreate AsyncOpenAI
             \<lparr>kw_model = ''gpt-4o'', kw_messages = [], kw_temperature = Some 0.7,
              kw_max_tokens = None, kw_stream = Some True\<rparr>],
          Inl (HTTPException 400 ''messages is too short''))"
  using empty_messages_forwarded
          [of "example_request\<lparr>messages := []\<rparr>" example_globals AsyncOpenAI example_sdk
              example_upstream "''messages is too short''"]
  by (simp add: example_get_client example_request_def example_upstream_def chat_kwargs_def
        prod_eq_iff)

section \<open>No provider configured\<close>

text \<open>
  C5. With no client at all, \<^const>\<open>get_client\<close> raises the \<^verbatim>\<open>HTTPException\<close> with status
  400, as the claim says of the routing. It raises it inside the \<^verbatim>\<open>try\<close> block of the
  handler, whose last clause \<^verbatim>\<open>except Exception\<close> catches it and raises a new one with
  status 500: both completion endpoints answer 500, not 400.
\<close>

theorem no_provider_status_500:
  "get_client \<lparr>openai_client = None, azure_client = None, config = cfg\<rparr> m
     = Inl (HTTPException 400 ''No configured AI providers'')
   \<and> chat_completion lib up \<lparr>openai_client = None, azure_client = None, config = cfg\<rparr> request
     = ([], Inl (HTTPException 500 (str_http_exception lib 400 ''No configured AI providers'')))
   \<and> completion lib up \<lparr>openai_client = None, azure_client = None, config = cfg\<rparr> request'
     = ([], Inl (HTTPException 500 (str_http_exception lib 400 ''No configured AI providers'')))
   \<and> http_status (snd (chat_completion lib up
        \<lparr>openai_client = None, azure_client = None, config = cfg\<rparr> request)) = 500
   \<and> http_status (snd (completion lib up
        \<lparr>openai_client = None, azure_client = None, config = cfg\<rparr> request')) = 500"
  by (simp add: get_client_def chat_completion_def completion_def except_clauses_def str_exn_def
        http_status_def)

section \<open>Translation of the request\<close>

text \<open>
  C6. The call on the provider has the model, the temperature, the maximal number of tokens
  (unset stays unset) and the stream flag of the request, and the role and the content of
  every message in the order of the request. The dictionary built for a message has no
  \<^verbatim>\<open>name\<close> key: the optional name of a message is not passed on, as in the example request,
  whose message has the name \<^verbatim>\<open>alice\<close>.
\<close>

theorem chat_kwargs_drops_name:
  "kw_model (chat_kwargs request) = ChatCompletionRequest.model request
   \<and> map (\<lambda>d. map_of d ''role'') (kw_messages (chat_kwargs request))
       = map (\<lambda>msg. Some (role msg)) (messages request)
   \<and> map (\<lambda>d. map_of d ''content'') (kw_messages (chat_kwargs request))
       = map (\<lambda>msg. Some (content msg)) (messages request)
   \<and> kw_temperature (chat_kwargs request) = ChatCompletionRequest.temperature request
   \<and> kw_max_tokens (chat_kwargs request) = ChatCompletionRequest.max_tokens request
   \<and> kw_stream (chat_kwargs request) = stream request
   \<and> map (\<lambda>d. map_of d ''name'') (kw_messages (chat_kwargs request))
       = map (\<lambda>msg. None) (messages request)
   \<and> map name (messages example_request) = [Some ''alice'']
   \<and> kw_messages (chat_kwargs example_request) = [[(''role'', ''user''), (''content'', ''hi'')]]"
  by (simp add: chat_kwargs_def example_request_def)

section \<open>The authentication gate\<close>

lemma authenticate_request_iff:
  "authenticate_request cfg hdr = Inr True \<longleftrightarrow> hdr = Some (''Bearer '' @ master_key cfg)"
proof (cases hdr)
  case None
  then show ?thesis by (simp add: authenticate_request_def)
next
  case (Some h)
  have "prefix ''Bearer '' h \<and> drop 7 h = master_key cfg \<longleftrightarrow> h = ''Bearer '' @ master_key cfg"
    by (auto simp: prefix_def)
  then show ?thesis
    using Some by (auto simp: authenticate_request_def py_startswith_prefix Let_def)
qed

lemma authenticate_request_cases:
  "authenticate_request cfg hdr = Inr True
   \<or> authenticate_request cfg hdr = Inl (HTTPException 401 ''Missing Authorization header'')
   \<or> authenticate_request cfg hdr = Inl (HTTPException 401 ''Invalid API key'')"
  by (simp add: authenticate_request_def Let_def split: option.splits)

lemma serve_rejected:
  assumes "authenticate_request (config g) hdr \<noteq> Inr True"
    and "req \<noteq> GetHealthReadiness" and "req \<noteq> GetRoot"
  shows "fst (serve lib up g hdr req) = [] \<and> http_status (snd (serve lib up g hdr req)) = 401"
proof -
  from assms(1) authenticate_request_cases [of "config g" hdr]
  obtain d where "authenticate_request (config g) hdr = Inl (HTTPException 401 d)"
    by blast
  with assms(2,3) show ?thesis
    by (cases req) (simp_all add: serve_def http_status_def)
qed

lemma serve_accepted:
  assumes "authenticate_request (config g) hdr = Inr True"
  shows "serve lib up g hdr GetModels = ([], Inr (list_models g))
         \<and> serve lib up g hdr (PostChatCompletions r) = chat_completion lib up g r
         \<and> serve lib up g hdr (PostCompletions r') = completion lib up g r'"
  using assms by (simp add: serve_def)

text \<open>
  C8. The gate accepts a request exactly when the credential header is present, begins with
  the literal \<^verbatim>\<open>Bearer\<close> and one space, and the rest of it equals the configured master key;
  any other header, and a missing one, is rejected with status 401. On every route but the
  readiness and the root route a rejected request is answered 401 before any handler runs
  (no call on a provider is made) and an accepted one reaches its handler; the readiness and
  the root route answer without the gate.
\<close>

theorem auth_gate_accepts_iff:
  "(authenticate_request cfg hdr = Inr True
      \<longleftrightarrow> (\<exists>h. hdr = Some h \<and> prefix ''Bearer '' h \<and> drop 7 h = master_key cfg))
   \<and> (authenticate_request cfg hdr \<noteq> Inr True
        \<longrightarrow> (\<exists>d. authenticate_request cfg hdr = Inl (HTTPException 401 d)))
   \<and> (hdr \<noteq> Some (''Bearer '' @ master_key (config g))
        \<and> req \<noteq> GetHealthReadiness \<and> req \<noteq> GetRoot
        \<longrightarrow> fst (serve lib up g hdr req) = [] \<and> http_status (snd (serve lib up g hdr req)) = 401)
   \<and> (hdr = Some (''Bearer '' @ master_key (config g))
        \<longrightarrow> serve lib up g hdr GetModels = ([], Inr (list_models g))
          \<and> serve lib up g hdr (PostChatCompletions r) = chat_completion lib up g r
          \<and> serve lib up g hdr (PostCompletions r') = completion lib up g r')
   \<and> serve lib up g hdr GetHealthReadiness = ([], Inr health_check)
   \<and> serve lib up g hdr GetRoot = ([], Inr (root g))"
proof -
  have accept: "authenticate_request cfg hdr = Inr True
      \<longleftrightarrow> (\<exists>h. hdr = Some h \<and> prefix ''Bearer '' h \<and> drop 7 h = master_key cfg)"
    by (auto simp: authenticate_request_iff prefix_def)
  have reject: "authenticate_request cfg hdr \<noteq> Inr True
        \<longrightarrow> (\<exists>d. authenticate_request cfg hdr = Inl (HTTPException 401 d))"
    using authenticate_request_cases [of cfg hdr] by blast
  have protected: "hdr \<noteq> Some (''Bearer '' @ master_key (config g))
        \<and> req \<noteq> GetHealthReadiness \<and> req \<noteq> GetRoot
        \<longrightarrow> fst (serve lib up g hdr req) = [] \<and> http_status (snd (serve lib up g hdr req)) = 401"
    using serve_rejected [of g hdr req lib up] by (simp add: authenticate_request_iff)
  have passed: "hdr = Some (''Bearer '' @ master_key (config g))
        \<longrightarrow> serve lib up g hdr GetModels = ([], Inr (list_models g))
          \<and> serve lib up g hdr (PostChatCompletions r) = chat_completion lib up g r
          \<and> serve lib up g hdr (PostCompletions r') = completion lib up g r'"
    using serve_accepted [of g hdr lib up r r'] by (simp add: authenticate_request_iff)
  have open_routes: "serve lib up g hdr GetHealthReadiness = ([], Inr health_check)
      \<and> serve lib up g hdr GetRoot = ([], Inr (root g))"
    by (simp add: serve_def)
  from accept reject protected passed open_routes show ?thesis by blast
qed

theorem auth_gate_accepts_iff_witness:
  "authenticate_request example_config (Some ''Bearer sk-1234'') = Inr True
   \<and> authenticate_request example_config (Some ''bearer sk-1234'')
       = Inl (HTTPException 401 ''Missing Authorization header'')
   \<and> authenticate_request example_config (Some ''Bearer sk-9999'')
       = Inl (HTTPException 401 ''Invalid API key'')
   \<and> http_status (snd (serve example_sdk example_upstream example_globals None GetModels)) = 401
   \<and> http_status (snd (serve example_sdk example_upstream example_globals (Some ''Bearer  sk-1234'')
                           (PostChatCompletions example_request))) = 401
   \<and> serve example_sdk example_upstream example_globals (Some ''Bearer sk-1234'')
         (PostChatCompletions example_request)
       = chat_completion example_sdk example_upstream example_globals example_request
   \<and> http_status (snd (serve example_sdk example_upstream example_globals None GetHealthReadiness)) = 200"
  using auth_gate_accepts_iff
          [of example_config "Some ''Bearer sk-1234''" example_globals GetModels example_sdk
              example_upstream example_request example_completion_request]
        auth_gate_accepts_iff
          [of example_config "Some ''bearer sk-1234''" example_globals GetModels example_sdk
              example_upstream example_request example_completion_request]
        auth_gate_accepts_iff
          [of example_config "Some ''Bearer sk-9999''" example_globals GetModels example_sdk
              example_upstream example_request example_completion_request]
        auth_gate_accepts_iff
          [of example_config None example_globals GetModels example_sdk
              example_upstream example_request example_completion_request]
        auth_gate_accepts_iff
          [of example_config "Some ''Bearer  sk-1234''" example_globals
              "PostChatCompletions example_request" example_sdk
              example_upstream example_request example_completion_request]
  by (simp add: example_config_def example_globals_def authenticate_request_def py_startswith_def
        http_status_def health_check_def)

lemma guarded_result_field:
  assumes "(if c then Inl v else (case x of None \<Rightarrow> Inl w | Some p \<Rightarrow> Inr (f p))) = Inr r"
    and "\<And>p. sel (f p) = k"
  shows "sel r = k"
  using assms by (cases c; cases x) auto

lemma load_config_master_key:
  assumes "load_config py_int env = Inr cfg"
  shows "master_key cfg = getenv_default env ''MASTER_KEY'' ''sk-1234''"
  using assms [unfolded load_config_def Let_def]
  by (rule guarded_result_field [where sel = master_key]) (simp only: ProxyConfig.select_convs)

text \<open>
  C10. When the environment has no \<^verbatim>\<open>MASTER_KEY\<close> and the configuration loads, the master
  key is \<^verbatim>\<open>sk-1234\<close>: the gate accepts the header \<^verbatim>\<open>Bearer sk-1234\<close> and no other, so on
  every protected route any other header is answered 401 and this one reaches the handler.
\<close>

theorem default_master_key:
  assumes "load_config py_int env = Inr cfg"
    and "env ''MASTER_KEY'' = None"
  shows "master_key cfg = ''sk-1234''
         \<and> (authenticate_request cfg hdr = Inr True \<longleftrightarrow> hdr = Some ''Bearer sk-1234'')
         \<and> (hdr \<noteq> Some ''Bearer sk-1234'' \<and> req \<noteq> GetHealthReadiness \<and> req \<noteq> GetRoot
              \<longrightarrow> http_status (snd (serve lib up (g\<lparr>config := cfg\<rparr>) hdr req)) = 401)
         \<and> serve lib up (g\<lparr>config := cfg\<rparr>) (Some ''Bearer sk-1234'') GetModels
             = ([], Inr (list_models (g\<lparr>config := cfg\<rparr>)))
         \<and> serve lib up (g\<lparr>config := cfg\<rparr>) (Some ''Bearer sk-1234'') (PostChatCompletions r)
             = chat_completion lib up (g\<lparr>config := cfg\<rparr>) r
         \<and> serve lib up (g\<lparr>config := cfg\<rparr>) (Some ''Bearer sk-1234'') (PostCompletions r')
             = completion lib up (g\<lparr>config := cfg\<rparr>) r'"
proof -
  have key: "master_key cfg = ''sk-1234''"
    using load_config_master_key [OF assms(1)] assms(2) by (simp add: getenv_default_def)
  then have gate: "authenticate_request cfg h = Inr True \<longleftrightarrow> h = Some ''Bearer sk-1234''" for h
    by (simp add: authenticate_request_iff)
  have rejected: "hdr \<noteq> Some ''Bearer sk-1234'' \<and> req \<noteq> GetHealthReadiness \<and> req \<noteq> GetRoot
              \<longrightarrow> http_status (snd (serve lib up (g\<lparr>config := cfg\<rparr>) hdr req)) = 401"
    using serve_rejected [of "g\<lparr>config := cfg\<rparr>" hdr req lib up] gate [of hdr] by simp
  have "authenticate_request (config (g\<lparr>config := cfg\<rparr>)) (Some ''Bearer sk-1234'') = Inr True"
    using gate by simp
  from serve_accepted [OF this, of lib up r r'] key gate [of hdr] rejected show ?thesis by blast
qed

theorem default_master_key_witness:
  "load_config (\<lambda>s. if s = ''4000'' then Some 4000 else None) [''OPENAI_API_KEY'' \<mapsto> ''sk-upstream'']
     = Inr example_config
   \<and> [''OPENAI_API_KEY'' \<mapsto> ''sk-upstream''] ''MASTER_KEY'' = None
   \<and> master_key example_config = ''sk-1234''
   \<and> authenticate_request example_config (Some ''Bearer sk-1234'') = Inr True
   \<and> http_status (snd (serve example_sdk example_upstream example_globals (Some ''Bearer sk-4321'')
                           (PostChatCompletions example_request))) = 401"
proof -
  have a: "load_config (\<lambda>s. if s = ''4000'' then Some 4000 else None)
             [''OPENAI_API_KEY'' \<mapsto> ''sk-upstream''] = Inr example_config"
    by (simp add: load_config_def getenv_def getenv_default_def truthy_def example_config_def
          py_lower_def)
  have b: "[''OPENAI_API_KEY'' \<mapsto> ''sk-upstream''] ''MASTER_KEY'' = None"
    by simp
  have c: "example_globals\<lparr>config := example_config\<rparr> = example_globals"
    by (simp add: example_globals_def)
  from default_master_key [OF a b, of "Some ''Bearer sk-1234''" "PostChatCompletions example_request"
         example_sdk example_upstream example_globals example_request example_completion_request]
       default_master_key [OF a b, of "Some ''Bearer sk-4321''" "PostChatCompletions example_request"
         example_sdk example_upstream example_globals example_request example_completion_request]
       a b c
  show ?thesis by simp
qed

section \<open>Error bodies\<close>

text \<open>
  C9 as stated fails. In the example deployment, a provider call that raises an exception
  that is no API error is answered with status 500 and a detail that is the text of that
  exception, word for word; and when the same exception is raised in the middle of a stream,
  the frame that reports it carries the same text.
\<close>

theorem error_detail_exposes_exception_text_counterexample:
  "snd (chat_completion example_sdk
          (example_upstream\<lparr>chat_completions_create :=
             (\<lambda>client kwargs. Inl (OtherException ''connect to 10.0.0.5:8443 failed in pool.py line 88''))\<rparr>)
          example_globals example_request)
     = Inl (HTTPException 500 ''connect to 10.0.0.5:8443 failed in pool.py line 88'')
   \<and> snd (chat_completion example_sdk
          (example_upstream\<lparr>chat_completions_create :=
             (\<lambda>client kwargs. Inr (AsyncStream
                [Yields ''Hel'', Raises (OtherException ''connect to 10.0.0.5:8443 failed in pool.py line 88'')]))\<rparr>)
          example_globals example_request)
     = Inr (StreamingResponse
              [''data: Hel'' @ [CHR 0x0A, CHR 0x0A],
               ''data: {error: connect to 10.0.0.5:8443 failed in pool.py line 88}'' @ [CHR 0x0A, CHR 0x0A]]
              ''text/event-stream'')"
  by (simp add: chat_completion_def example_get_client example_request_def chat_kwargs_def
        except_clauses_def str_exn_def generate_def frame_def example_sdk_def)

lemma serve_raises_http_exception:
  "snd (serve lib up g hdr req) = Inl x \<Longrightarrow> \<exists>s d. x = HTTPException s d"
  using authenticate_request_cases [of "config g" hdr]
  by (cases req)
     (auto simp: serve_def chat_completion_def completion_def except_clauses_status Let_def
           split: sum.splits if_splits upstream_response.splits)

text \<open>
  C9, as the code has it. Every error response of the proxy is an \<^verbatim>\<open>HTTPException\<close>, that
  is a status code and a body with a \<^verbatim>\<open>detail\<close> field. When the provider call raises, on
  either completion endpoint, the detail is a fixed message for a rate-limit and for an
  authentication failure, and the text \<^verbatim>\<open>str(e)\<close> of the exception for any other API error
  and any other exception. A failure in the middle of a stream is reported by a last frame
  that carries \<^verbatim>\<open>str(e)\<close> under the key \<^verbatim>\<open>error\<close>.
\<close>

theorem error_bodies:
  "(snd (serve lib up g hdr req) = Inl x \<longrightarrow> (\<exists>s d. x = HTTPException s d))
   \<and> (get_client g (ChatCompletionRequest.model r) = Inr client
        \<and> chat_completions_create up client (chat_kwargs r) = Inl e
      \<longrightarrow> (\<exists>s. snd (chat_completion lib up g r) =
                Inl (HTTPException s
                      (case e of
                         RateLimitError m \<Rightarrow> ''Upstream rate limit exceeded''
                       | AuthenticationError m \<Rightarrow> ''Upstream authentication failed''
                       | _ \<Rightarrow> str_exn lib e))))
   \<and> (get_client g (CompletionRequest.model r') = Inr client'
        \<and> completions_create up client' (completion_kwargs r') = Inl e'
      \<longrightarrow> (\<exists>s. snd (completion lib up g r') =
                Inl (HTTPException s
                      (case e' of
                         RateLimitError m \<Rightarrow> ''Upstream rate limit exceeded''
                       | AuthenticationError m \<Rightarrow> ''Upstream authentication failed''
                       | _ \<Rightarrow> str_exn lib e'))))
   \<and> str_exn lib (APIError m sc) = m
   \<and> str_exn lib (OtherException m) = m
   \<and> last (relay lib (map Yields chunks @ Raises e'' # rest))
       = ''data: '' @ json_dumps lib [(''error'', str_exn lib e'')] @ [CHR 0x0A, CHR 0x0A]"
proof -
  have structured: "snd (serve lib up g hdr req) = Inl x \<longrightarrow> (\<exists>s d. x = HTTPException s d)"
    using serve_raises_http_exception [of lib up g hdr req x] by blast
  have chat: "get_client g (ChatCompletionRequest.model r) = Inr client
        \<and> chat_completions_create up client (chat_kwargs r) = Inl e
      \<longrightarrow> (\<exists>s. snd (chat_completion lib up g r) =
                Inl (HTTPException s
                      (case e of
                         RateLimitError m \<Rightarrow> ''Upstream rate limit exceeded''
                       | AuthenticationError m \<Rightarrow> ''Upstream authentication failed''
                       | _ \<Rightarrow> str_exn lib e)))"
    by (auto simp: chat_completion_raises except_clauses_status)
  have text_completion: "get_client g (CompletionRequest.model r') = Inr client'
        \<and> completions_create up client' (completion_kwargs r') = Inl e'
      \<longrightarrow> (\<exists>s. snd (completion lib up g r') =
                Inl (HTTPException s
                      (case e' of
                         RateLimitError m \<Rightarrow> ''Upstream rate limit exceeded''
                       | AuthenticationError m \<Rightarrow> ''Upstream authentication failed''
                       | _ \<Rightarrow> str_exn lib e')))"
    by (auto simp: completion_raises except_clauses_status)
  have texts: "str_exn lib (APIError m sc) = m \<and> str_exn lib (OtherException m) = m"
    by (simp add: str_exn_def)
  have in_band: "last (relay lib (map Yields chunks @ Raises e'' # rest))
       = ''data: '' @ json_dumps lib [(''error'', str_exn lib e'')] @ [CHR 0x0A, CHR 0x0A]"
    by (simp add: relay_raise frame_def)
  from structured chat text_completion texts in_band show ?thesis by blast
qed

theorem error_bodies_witness:
  "snd (chat_completion example_sdk
          (example_upstream\<lparr>chat_completions_create := (\<lambda>client kwargs. Inl (RateLimitError ''quota 17 of 17''))\<rparr>)
          example_globals example_request)
     = Inl (HTTPException 429 ''Upstream rate limit exceeded'')
   \<and> snd (completion example_sdk
          (example_upstream\<lparr>completions_create := (\<lambda>client kwargs. Inl (OtherException ''boom''))\<rparr>)
          example_globals example_completion_request)
     = Inl (HTTPException 500 ''boom'')
   \<and> snd (serve example_sdk example_upstream example_globals None GetModels)
     = Inl (HTTPException 401 ''Missing Authorization header'')"
proof -
  let ?up1 = "example_upstream\<lparr>chat_completions_create := (\<lambda>client kwargs. Inl (RateLimitError ''quota 17 of 17''))\<rparr>"
  let ?up2 = "example_upstream\<lparr>completions_create := (\<lambda>client kwargs. Inl (OtherException ''boom''))\<rparr>"
  have a: "get_client example_globals (ChatCompletionRequest.model example_request) = Inr AsyncOpenAI"
    by (simp add: example_get_client example_request_def)
  have b: "get_client example_globals (CompletionRequest.model example_completion_request) = Inr AsyncOpenAI"
    by (simp add: example_get_client example_completion_request_def)
  have c: "snd (serve example_sdk example_upstream example_globals None GetModels)
     = Inl (HTTPException 401 ''Missing Authorization header'')"
    by (simp add: serve_def authenticate_request_def)
  have d: "http_status (snd (chat_completion example_sdk ?up1 example_globals example_request)) = 429"
    using a by (simp add: chat_completion_def except_clauses_def http_status_def)
  have e: "http_status (snd (completion example_sdk ?up2 example_globals example_completion_request)) = 500"
    using b by (simp add: completion_def except_clauses_def http_status_def)
  from error_bodies
         [of example_sdk ?up1 example_globals None GetModels
             "HTTPException 401 ''Missing Authorization header''" example_request AsyncOpenAI
             "RateLimitError ''quota 17 of 17''" example_completion_request AsyncOpenAI
             "RateLimitError []" "[]" None "[]" "RateLimitError []" "[]"]
       error_bodies
         [of example_sdk ?up2 example_globals None GetModels
             "HTTPException 401 ''Missing Authorization header''" example_request AsyncOpenAI
             "RateLimitError []" example_completion_request AsyncOpenAI
             "OtherException ''boom''" "[]" None "[]" "RateLimitError []" "[]"]
       a b c d e
  show ?thesis by (auto simp: http_status_def str_exn_def)
qed

end
